theory Spec2Isabelle
  imports Complex_Main "HOL-Library.Multiset"
begin

section \<open>The customer aggregate\<close>

text \<open>
  The estimation core works on a pandas DataFrame with one row per customer, produced by
  \<^verbatim>\<open>aggregate_to_customers\<close> in \<^verbatim>\<open>utils/data_loader.py\<close>. A row carries the aggregated
  columns; the columns that the core adds (\<^verbatim>\<open>segment\<close>, \<^verbatim>\<open>clv\<close>, \<^verbatim>\<open>recency_score\<close>, ...)
  are optional fields, absent (\<open>None\<close>) until a component assigns them. The frame is the
  list of its rows, in index order. The columns \<^verbatim>\<open>recency\<close>, \<^verbatim>\<open>first_visit\<close>, \<^verbatim>\<open>email\<close> and
  \<^verbatim>\<open>phone\<close> are read by no component of the core and are left out.

  \<^verbatim>\<open>frequency\<close> is a pandas count (an integer); \<^verbatim>\<open>days_since_visit\<close> is a numeric column
  that enters every computation as float64, so a row holds the real number that the
  double denotes (a whole number of days is such a number). A float that is not a number
  (the maximum or mean of an empty column, \<open>0 / 0\<close>) is \<open>None\<close> of a \<open>real option\<close>.

  The churn scorer compares its scores with thresholds, and a score can miss a threshold
  by one rounding. Its arithmetic is therefore float64 here: every operation is computed
  exactly and then rounded to the nearest double (\<open>float64\<close> below). In the value model
  and in the frequency model a float is the real number it approximates.
\<close>

record row =
  client_name :: string
  frequency :: int
  total_spend :: real
  avg_spend :: real
  days_since_visit :: real
  segment :: "string option"
  clv :: "real option"
  projected_clv_if_regular :: "real option"
  recency_score :: "real option"
  frequency_score :: "real option"
  p_churn :: "real option"
  risk_level :: "string option"

type_synonym frame = "row list"

text \<open>A freshly aggregated customer: none of the derived columns is present.\<close>

definition customer :: "string \<Rightarrow> int \<Rightarrow> real \<Rightarrow> real \<Rightarrow> real \<Rightarrow> row" where
  "customer nm f spend avg days =
     \<lparr>client_name = nm, frequency = f, total_spend = spend, avg_spend = avg,
      days_since_visit = days, segment = None, clv = None,
      projected_clv_if_regular = None, recency_score = None, frequency_score = None,
      p_churn = None, risk_level = None\<rparr>"

text \<open>Python raises where HOL would return an arbitrary value; the exceptions the core
  can meet are values.\<close>

datatype py_error = ZeroDivisionError

text \<open>\<^verbatim>\<open>a / b\<close> on Python numbers raises on a zero divisor.\<close>

definition py_truediv :: "real \<Rightarrow> real \<Rightarrow> py_error + real" where
  "py_truediv a b = (if b = 0 then Inl ZeroDivisionError else Inr (a / b))"

text \<open>\<^verbatim>\<open>a / b\<close> on numpy float64 scalars never raises: a zero divisor gives \<open>nan\<close> or
  \<open>inf\<close> with a RuntimeWarning. \<open>None\<close> is that non-finite float.\<close>

definition np_truediv :: "real \<Rightarrow> real \<Rightarrow> real option" where
  "np_truediv a b = (if b = 0 then None else Some (a / b))"

text \<open>\<^verbatim>\<open>Series.max()\<close>: \<open>nan\<close> on an empty column.\<close>

fun series_max :: "real list \<Rightarrow> real option" where
  "series_max [] = None"
| "series_max (x # xs) = Some (fold max xs x)"

text \<open>\<^verbatim>\<open>Series.mean()\<close>: \<open>nan\<close> on an empty column.\<close>

definition series_mean :: "real list \<Rightarrow> real option" where
  "series_mean xs = (if xs = [] then None else Some (sum_list xs / real (length xs)))"

text \<open>A comparison with \<open>nan\<close> is false.\<close>

fun nan_gt :: "real option \<Rightarrow> real option \<Rightarrow> bool" where
  "nan_gt (Some a) (Some b) = (a > b)"
| "nan_gt _ _ = False"

section \<open>Rounding to float64\<close>

text \<open>Rounding to the nearest integer, a tie to the even one.\<close>

definition round_half_even :: "real \<Rightarrow> int" where
  "round_half_even x =
    (let n = \<lfloor>x\<rfloor>; r = x - of_int n
     in if r < 1 / 2 then n else if 1 / 2 < r then n + 1 else if even n then n else n + 1)"

text \<open>
  The double nearest to a real number (IEEE 754 binary64, round to nearest, ties to even):
  the number is scaled so that its significand has 53 bits, rounded to an integer and
  scaled back. Below 2 to the power -1022 the spacing of the doubles stays 2 to the
  power -1074. A number beyond
  the largest double, which float64 turns into \<open>inf\<close>, does not occur in the churn
  scores and is not represented.
\<close>

definition float64 :: "real \<Rightarrow> real" where
  "float64 x =
    (if x = 0 then 0
     else (let e = max (\<lfloor>log 2 \<bar>x\<bar>\<rfloor> - 52) (- 1074)
           in of_int (round_half_even (x / 2 powi e)) * 2 powi e))"

section \<open>Segmentation (utils/segmentation.py)\<close>

record segment_rules =
  rule_min :: int
  rule_max :: int
  color :: string
  description :: string

text \<open>The dict \<^verbatim>\<open>SEGMENT_DEFINITIONS\<close>, in insertion order.\<close>

definition SEGMENT_DEFINITIONS :: "(string \<times> segment_rules) list" where
  "SEGMENT_DEFINITIONS =
    [(''Explorer'', \<lparr>rule_min = 1, rule_max = 2, color = ''#FF6B6B'', description = ''1-2 visits''\<rparr>),
     (''Casual'', \<lparr>rule_min = 3, rule_max = 8, color = ''#4ECDC4'', description = ''3-8 visits''\<rparr>),
     (''Regular'', \<lparr>rule_min = 9, rule_max = 12, color = ''#45B7D1'', description = ''9-12 visits''\<rparr>),
     (''Superuser'', \<lparr>rule_min = 13, rule_max = 999, color = ''#96CEB4'', description = ''13+ visits''\<rparr>)]"

text \<open>The loop of \<^verbatim>\<open>assign_segment\<close> over the items of the dict: the first segment whose
  range holds the frequency, and the fallback \<^verbatim>\<open>"Explorer"\<close> when the loop ends.\<close>

fun assign_segment_items :: "(string \<times> segment_rules) list \<Rightarrow> int \<Rightarrow> string" where
  "assign_segment_items [] f = ''Explorer''"
| "assign_segment_items ((seg, rules) # rest) f =
     (if rule_min rules \<le> f \<and> f \<le> rule_max rules then seg
      else assign_segment_items rest f)"

definition assign_segment :: "int \<Rightarrow> string" where
  "assign_segment f = assign_segment_items SEGMENT_DEFINITIONS f"

text \<open>\<^verbatim>\<open>assign_segments\<close>: the value it returns, the copy with the \<^verbatim>\<open>segment\<close> column
  assigned.\<close>

definition assign_segments :: "frame \<Rightarrow> frame" where
  "assign_segments customer_df =
     map (\<lambda>c. c\<lparr>segment := Some (assign_segment (frequency c))\<rparr>) customer_df"

section \<open>Churn scorer (utils/models.py)\<close>

text \<open>The inner function \<^verbatim>\<open>risk_level(p)\<close>. The literals \<^verbatim>\<open>0.7\<close> and \<^verbatim>\<open>0.4\<close> are the
  doubles nearest to 7/10 and 4/10.\<close>

definition risk_level_of :: "real \<Rightarrow> string" where
  "risk_level_of p =
     (if p \<ge> float64 0.7 then ''high'' else if p \<ge> float64 0.4 then ''medium'' else ''low'')"

text \<open>\<^verbatim>\<open>Series.clip(lower, upper)\<close> on one value.\<close>

definition clip :: "real \<Rightarrow> real \<Rightarrow> real \<Rightarrow> real" where
  "clip lower upper x = min upper (max lower x)"

text \<open>
  \<^verbatim>\<open>calculate_churn_probability\<close>, assignment by assignment. Column arithmetic is
  elementwise, so each assignment maps over the rows; the scalar \<open>0\<close> of the
  \<^verbatim>\<open>else\<close> branches is broadcast to every row. Every division, subtraction,
  multiplication and addition is rounded; the int column \<^verbatim>\<open>frequency\<close> and its maximum are
  converted to float64 before they are divided.
\<close>

definition calculate_churn_probability :: "frame \<Rightarrow> frame" where
  "calculate_churn_probability customer_df =
    (let df = customer_df;
         max_days = series_max (map days_since_visit df);
         max_freq = series_max (map (\<lambda>c. real_of_int (frequency c)) df);
         df = (if nan_gt max_days (Some 0)
               then map (\<lambda>c. c\<lparr>recency_score := Some (float64 (days_since_visit c / the max_days))\<rparr>) df
               else map (\<lambda>c. c\<lparr>recency_score := Some 0\<rparr>) df);
         df = (if nan_gt max_freq (Some 0)
               then map (\<lambda>c. c\<lparr>frequency_score :=
                                 Some (float64 (1 - float64 (float64 (real_of_int (frequency c))
                                                             / float64 (the max_freq))))\<rparr>) df
               else map (\<lambda>c. c\<lparr>frequency_score := Some 0\<rparr>) df);
         df = map (\<lambda>c. c\<lparr>p_churn :=
                    Some (float64 (float64 (the (recency_score c) * float64 0.7)
                                   + float64 (the (frequency_score c) * float64 0.3)))\<rparr>) df;
         df = map (\<lambda>c. c\<lparr>p_churn := Some (clip 0 1 (the (p_churn c)))\<rparr>) df;
         df = map (\<lambda>c. c\<lparr>risk_level := Some (risk_level_of (the (p_churn c)))\<rparr>) df
     in df)"

record churn_summary =
  customer_df :: frame
  high_risk_count :: nat
  medium_risk_count :: nat
  low_risk_count :: nat
  revenue_at_risk :: real
  still_active_pct :: real
  high_risk_customers :: frame

text \<open>\<^verbatim>\<open>get_churn_summary\<close>. The quotient of the two lengths is Python's division of
  ints, which raises on a zero divisor and rounds the exact quotient. The sum of
  \<^verbatim>\<open>total_spend\<close> is taken exactly: the order in which pandas adds the floats of a column
  is not modelled, and no statement below reads \<^verbatim>\<open>revenue_at_risk\<close>.\<close>

definition get_churn_summary :: "frame \<Rightarrow> py_error + churn_summary" where
  "get_churn_summary cdf =
    (let df = calculate_churn_probability cdf;
         high_risk = filter (\<lambda>c. risk_level c = Some ''high'') df;
         medium_risk = filter (\<lambda>c. risk_level c = Some ''medium'') df;
         low_risk = filter (\<lambda>c. risk_level c = Some ''low'') df;
         at_risk = float64 (sum_list (map total_spend high_risk) * float64 0.8)
     in case (if length df > 0
              then map_sum id float64 (py_truediv (real (length low_risk)) (real (length df)))
              else Inr 0) of
          Inl e \<Rightarrow> Inl e
        | Inr pct \<Rightarrow>
            Inr \<lparr>customer_df = df,
                 high_risk_count = length high_risk,
                 medium_risk_count = length medium_risk,
                 low_risk_count = length low_risk,
                 revenue_at_risk = at_risk,
                 still_active_pct = pct,
                 high_risk_customers = high_risk\<rparr>)"

section \<open>Value model (utils/models.py)\<close>

text \<open>\<^verbatim>\<open>DataFrame.nlargest(n, column)\<close>: the first \<open>n\<close> rows in descending order of the
  column; rows with equal values keep their order (\<^verbatim>\<open>keep='first'\<close>), as the stable
  \<open>sort_key\<close> does.\<close>

definition nlargest :: "nat \<Rightarrow> (row \<Rightarrow> real) \<Rightarrow> frame \<Rightarrow> frame" where
  "nlargest n col df = take n (sort_key (\<lambda>c. - col c) df)"

text \<open>\<^verbatim>\<open>Series.median()\<close>: the middle value of the sorted column, the mean of the two
  middle values when the length is even, \<open>nan\<close> on an empty column.\<close>

definition series_median :: "real list \<Rightarrow> real option" where
  "series_median xs =
    (let s = sort xs; n = length s
     in if n = 0 then None
        else if odd n then Some (s ! (n div 2))
        else Some ((s ! (n div 2 - 1) + s ! (n div 2)) / 2))"

text \<open>\<^verbatim>\<open>int(n * 0.1) or 1\<close>: \<^verbatim>\<open>int\<close> truncates, and a zero is falsy.\<close>

definition top_count :: "nat \<Rightarrow> nat" where
  "top_count n = (let k = nat \<lfloor>real n * 0.1\<rfloor> in if k = 0 then 1 else k)"

record clv_fit =
  repeat_customers :: frame
  avg_clv :: "real option"
  total_clv :: real
  top_10_pct_clv :: "real option"
  hidden_gems :: frame
  n_repeat :: nat

text \<open>The two dicts \<^verbatim>\<open>fit_gamma_gamma\<close> can return: \<^verbatim>\<open>{"success": False, "message": ...}\<close>
  and \<^verbatim>\<open>{"success": True, ...}\<close>.\<close>

datatype clv_result = CLV_Failure string | CLV_Success clv_fit

fun success :: "clv_result \<Rightarrow> bool" where
  "success (CLV_Failure msg) = False"
| "success (CLV_Success fit) = True"

definition fit_gamma_gamma :: "frame \<Rightarrow> clv_result" where
  "fit_gamma_gamma cdf =
    (let repeat = filter (\<lambda>c. frequency c \<ge> 2) cdf
     in if length repeat < 10
        then CLV_Failure ''Need at least 10 repeat customers for CLV analysis''
        else
          (let repeat = map (\<lambda>c. c\<lparr>clv := Some (avg_spend c * real_of_int (frequency c) * 1.2)\<rparr>)
                          repeat;
               mean_clv = series_mean (map (\<lambda>c. the (clv c)) repeat);
               sum_clv = sum_list (map (\<lambda>c. the (clv c)) repeat);
               top_10_pct = series_mean (map (\<lambda>c. the (clv c))
                              (nlargest (top_count (length repeat)) (\<lambda>c. the (clv c)) repeat));
               all_customers = map (\<lambda>c. c\<lparr>projected_clv_if_regular := Some (avg_spend c * 12)\<rparr>) cdf;
               med = series_median (map avg_spend all_customers);
               gems = nlargest 10 avg_spend
                        (filter (\<lambda>c. frequency c \<le> 4 \<and> nan_gt (Some (avg_spend c)) med)
                           all_customers)
           in CLV_Success \<lparr>repeat_customers = repeat, avg_clv = mean_clv, total_clv = sum_clv,
                           top_10_pct_clv = top_10_pct, hidden_gems = gems,
                           n_repeat = length repeat\<rparr>))"

section \<open>Frequency model (utils/models.py)\<close>

text \<open>
  Two functions of scipy are parameters of the model: \<^verbatim>\<open>scipy.special.gammaln\<close> and
  \<^verbatim>\<open>scipy.optimize.minimize\<close> (called with \<^verbatim>\<open>method="L-BFGS-B"\<close>). The optimiser takes the
  objective, the starting point and the two bounds and returns its result object, of which
  the code reads \<^verbatim>\<open>x\<close> and \<^verbatim>\<open>fun\<close>; it reports a failed search in that object, not by an
  exception.
\<close>

record optimize_result =
  opt_x :: "real \<times> real"
  opt_fun :: real

type_synonym minimizer =
  "(real \<times> real \<Rightarrow> real) \<Rightarrow> real \<times> real \<Rightarrow> (real \<times> real) \<times> (real \<times> real) \<Rightarrow> optimize_result"

text \<open>\<^verbatim>\<open>Series.value_counts().sort_index()\<close>: the distinct values in ascending order,
  each with the number of rows that have it.\<close>

definition value_counts_sorted :: "int list \<Rightarrow> (int \<times> nat) list" where
  "value_counts_sorted xs = map (\<lambda>x. (x, count_list xs x)) (sort (remdups xs))"

text \<open>\<^verbatim>\<open>Series.var()\<close>: the sample variance (\<^verbatim>\<open>ddof=1\<close>), \<open>nan\<close> on fewer than two rows.\<close>

definition series_var :: "real list \<Rightarrow> real option" where
  "series_var xs =
    (if length xs < 2 then None
     else (let m = sum_list xs / real (length xs)
           in Some (sum_list (map (\<lambda>x. (x - m)\<^sup>2) xs) / (real (length xs) - 1))))"

text \<open>The NBD log-probability, written twice in the source (in the likelihood and in
  the predicted counts).\<close>

definition nbd_log_p :: "(real \<Rightarrow> real) \<Rightarrow> real \<Rightarrow> real \<Rightarrow> int \<Rightarrow> real" where
  "nbd_log_p gammaln r alpha x =
     gammaln (r + real_of_int x) - gammaln r - gammaln (real_of_int x + 1)
     + r * ln (alpha / (alpha + 1))
     + real_of_int x * ln (1 / (alpha + 1))"

definition zt_nbd_log_likelihood ::
    "(real \<Rightarrow> real) \<Rightarrow> real \<times> real \<Rightarrow> (int \<times> nat) list \<Rightarrow> real" where
  "zt_nbd_log_likelihood gammaln params frequency_counts =
    (let (r, alpha) = params
     in if r \<le> 0 \<or> alpha \<le> 0 then 10 ^ 10
        else
          (let p_zero = (alpha / (alpha + 1)) powr r;
               ll = fold (\<lambda>(x, cnt) ll.
                           if x < 1 \<or> cnt = 0 then ll
                           else ll + real cnt * (nbd_log_p gammaln r alpha x - ln (1 - p_zero)))
                      frequency_counts 0
           in - ll))"

text \<open>The sum of the chi-square terms. With the fitted parameters inside the bounds every
  term is a finite number; a term that is not finite makes the sum not finite here.\<close>

fun np_sum :: "real option list \<Rightarrow> real option" where
  "np_sum [] = Some 0"
| "np_sum (None # xs) = None"
| "np_sum (Some x # xs) = map_option (\<lambda>s. x + s) (np_sum xs)"

fun nan_lt :: "real option \<Rightarrow> real \<Rightarrow> bool" where
  "nan_lt (Some a) b = (a < b)"
| "nan_lt None b = False"

record nbd_result =
  nbd_r :: real
  nbd_alpha :: real
  f0 :: "real option"
  n_observed :: nat
  total_market :: "real option"
  market_reached :: "real option"
  chi_square :: "real option"
  dof :: int
  log_likelihood :: real
  heterogeneity :: string
  hetero_desc :: string
  fit_quality :: string
  fit_desc :: string
  freq_actual :: "(int \<times> nat) list"
  freq_predicted :: "(int \<times> real option) list"
  avg_visits :: "real option"

text \<open>
  \<^verbatim>\<open>fit_zt_nbd\<close> is given in three parts, in the order of its body: the starting values
  by the method of moments, the report computed from the fitted parameters, and the
  function itself, which calls the optimiser between the two.
\<close>

text \<open>The starting values: \<^verbatim>\<open>r_init\<close> and \<^verbatim>\<open>alpha_init\<close>. The comparison is false when
  the variance or the mean is \<open>nan\<close>.\<close>

definition method_of_moments :: "real list \<Rightarrow> real \<times> real" where
  "method_of_moments freqs =
    (let mean_freq = series_mean freqs;
         var_freq = series_var freqs
     in if nan_gt var_freq mean_freq
        then ((the mean_freq)\<^sup>2 / (the var_freq - the mean_freq),
              the mean_freq / (the var_freq - the mean_freq))
        else (1, 1))"

text \<open>
  The body of \<^verbatim>\<open>fit_zt_nbd\<close> after \<^verbatim>\<open>r, alpha = result.x\<close>. The divisions by
  \<^verbatim>\<open>1 - p_zero\<close>, by the total market and by a predicted count are numpy's and cannot
  raise; with the fitted parameters inside the bounds of the optimiser \<^verbatim>\<open>1 - p_zero\<close> is
  positive, and the only float that is not finite is \<^verbatim>\<open>market_reached\<close> of an empty table
  (\<open>0 / 0\<close>). The division of the chi-square statistic by \<^verbatim>\<open>max(df, 1)\<close> is modelled as
  Python's, which raises on a zero divisor. The result field \<^verbatim>\<open>df\<close> is \<open>dof\<close> here,
  \<^verbatim>\<open>r\<close> and \<^verbatim>\<open>alpha\<close> are \<open>nbd_r\<close> and \<open>nbd_alpha\<close>.
\<close>

definition nbd_report ::
    "(real \<Rightarrow> real) \<Rightarrow> (int \<times> nat) list \<Rightarrow> nat \<Rightarrow> real option \<Rightarrow> optimize_result
       \<Rightarrow> real \<Rightarrow> real \<Rightarrow> py_error + nbd_result" where
  "nbd_report gammaln freq_counts n mean_visits result r alpha =
    (let p_zero = (alpha / (alpha + 1)) powr r;
         est_f0 = np_truediv (real n * p_zero) (1 - p_zero);
         market = map_option (\<lambda>f. real n + f) est_f0;
         reached = Option.bind market (np_truediv (real n));
         predicted_series =
           map (\<lambda>(x, cnt). (x, map_option (\<lambda>p_x_zt. p_x_zt * real n)
                                  (np_truediv (exp (nbd_log_p gammaln r alpha x)) (1 - p_zero))))
             freq_counts;
         chi_sq = np_sum (map (\<lambda>((x, cnt), (y, predicted)).
                                 Option.bind predicted
                                   (\<lambda>p. np_truediv ((real cnt - p)\<^sup>2) p))
                            (zip freq_counts predicted_series));
         d = int (length freq_counts) - 2;
         (hetero, hdesc) =
           (if r < 0.5 then (''high'', ''Your customers are very different from each other'')
            else if r < 1.5
            then (''moderate'', ''Your customers have moderately varied visit patterns'')
            else (''low'', ''Your customers have fairly similar visit patterns''))
     in case (case chi_sq of None \<Rightarrow> Inr None
              | Some c \<Rightarrow> map_sum id Some (py_truediv c (real_of_int (max d 1)))) of
          Inl e \<Rightarrow> Inl e
        | Inr ratio \<Rightarrow>
           (let (quality, qdesc) =
                  (if nan_lt ratio 2 then (''good'', ''This model fits your data well'')
                   else if nan_lt ratio 4
                   then (''moderate'',
                         ''This model captures most patterns, treat estimates as directional'')
                   else (''poor'',
                         ''This model has limited fit, estimates are rough approximations''))
            in Inr \<lparr>nbd_r = r, nbd_alpha = alpha, f0 = est_f0, n_observed = n,
                    total_market = market, market_reached = reached, chi_square = chi_sq,
                    dof = d, log_likelihood = - opt_fun result,
                    heterogeneity = hetero, hetero_desc = hdesc,
                    fit_quality = quality, fit_desc = qdesc,
                    freq_actual = freq_counts, freq_predicted = predicted_series,
                    avg_visits = mean_visits\<rparr>))"

definition fit_zt_nbd :: "(real \<Rightarrow> real) \<Rightarrow> minimizer \<Rightarrow> frame \<Rightarrow> py_error + nbd_result" where
  "fit_zt_nbd gammaln minimize cdf =
    (let freq_counts = value_counts_sorted (map frequency cdf);
         n = length cdf;
         (r_init, alpha_init) = method_of_moments (map (\<lambda>c. real_of_int (frequency c)) cdf);
         result = minimize (\<lambda>params. zt_nbd_log_likelihood gammaln params freq_counts)
                    (max 0.1 r_init, max 0.1 alpha_init) ((0.01, 100), (0.01, 100));
         (r, alpha) = opt_x result
     in nbd_report gammaln freq_counts n
          (series_mean (map (\<lambda>c. real_of_int (frequency c)) cdf)) result r alpha)"

section \<open>The functions on a store of DataFrames\<close>

text \<open>
  A DataFrame is a mutable object and \<^verbatim>\<open>df["col"] = ...\<close> changes it in place, so
  whether a component changes the table of its caller depends on which object each
  assignment reaches. The store is the list of the frames allocated so far; a reference
  is an index into it. \<^verbatim>\<open>.copy()\<close> and a boolean selection allocate a new frame, a column
  assignment updates the frame its reference points to.
\<close>

type_synonym store = "frame list"

definition df_copy :: "store \<Rightarrow> nat \<Rightarrow> store \<times> nat" where
  "df_copy st a = (st @ [st ! a], length st)"

text \<open>\<^verbatim>\<open>df[mask].copy()\<close>.\<close>

definition df_select_copy :: "store \<Rightarrow> nat \<Rightarrow> (row \<Rightarrow> bool) \<Rightarrow> store \<times> nat" where
  "df_select_copy st a keep = (st @ [filter keep (st ! a)], length st)"

text \<open>A frame built by pandas from another one (\<^verbatim>\<open>nlargest\<close> of a selection).\<close>

definition df_new :: "store \<Rightarrow> frame \<Rightarrow> store \<times> nat" where
  "df_new st fr = (st @ [fr], length st)"

text \<open>\<^verbatim>\<open>df["col"] = values\<close>: the frame at the reference is replaced by the frame with
  the column assigned.\<close>

definition df_assign :: "store \<Rightarrow> nat \<Rightarrow> (frame \<Rightarrow> frame) \<Rightarrow> store" where
  "df_assign st a upd = st[a := upd (st ! a)]"

text \<open>\<^verbatim>\<open>assign_segments\<close>: \<^verbatim>\<open>df = customer_df.copy()\<close>, the assignment to \<^verbatim>\<open>df\<close>,
  \<^verbatim>\<open>return df\<close>.\<close>

definition assign_segments_st :: "store \<Rightarrow> nat \<Rightarrow> store \<times> nat" where
  "assign_segments_st st cdf =
    (let (st, df) = df_copy st cdf;
         st = df_assign st df
                (map (\<lambda>c. c\<lparr>segment := Some (assign_segment (frequency c))\<rparr>))
     in (st, df))"

text \<open>\<^verbatim>\<open>calculate_churn_probability\<close>: every assignment of the function is to the
  copy \<^verbatim>\<open>df\<close>, and the maxima are read from it.\<close>

definition calculate_churn_probability_st :: "store \<Rightarrow> nat \<Rightarrow> store \<times> nat" where
  "calculate_churn_probability_st st cdf =
    (let (st, df) = df_copy st cdf;
         max_days = series_max (map days_since_visit (st ! df));
         max_freq = series_max (map (\<lambda>c. real_of_int (frequency c)) (st ! df));
         st = df_assign st df
                (if nan_gt max_days (Some 0)
                 then map (\<lambda>c. c\<lparr>recency_score := Some (float64 (days_since_visit c / the max_days))\<rparr>)
                 else map (\<lambda>c. c\<lparr>recency_score := Some 0\<rparr>));
         st = df_assign st df
                (if nan_gt max_freq (Some 0)
                 then map (\<lambda>c. c\<lparr>frequency_score :=
                                   Some (float64 (1 - float64 (float64 (real_of_int (frequency c))
                                                               / float64 (the max_freq))))\<rparr>)
                 else map (\<lambda>c. c\<lparr>frequency_score := Some 0\<rparr>));
         st = df_assign st df
                (map (\<lambda>c. c\<lparr>p_churn :=
                   Some (float64 (float64 (the (recency_score c) * float64 0.7)
                                  + float64 (the (frequency_score c) * float64 0.3)))\<rparr>));
         st = df_assign st df (map (\<lambda>c. c\<lparr>p_churn := Some (clip 0 1 (the (p_churn c)))\<rparr>));
         st = df_assign st df
                (map (\<lambda>c. c\<lparr>risk_level := Some (risk_level_of (the (p_churn c)))\<rparr>))
     in (st, df))"

text \<open>\<^verbatim>\<open>fit_gamma_gamma\<close>: \<^verbatim>\<open>repeat_customers\<close> is a copy of a selection,
  \<^verbatim>\<open>all_customers\<close> a copy of the whole table, and \<^verbatim>\<open>hidden_gems\<close> a new frame. The dict
  returned holds the frames \<^verbatim>\<open>repeat_customers\<close> and \<^verbatim>\<open>hidden_gems\<close>, given here by their
  contents when the function returns.\<close>

definition fit_gamma_gamma_st :: "store \<Rightarrow> nat \<Rightarrow> store \<times> clv_result" where
  "fit_gamma_gamma_st st cdf =
    (let (st, repeat) = df_select_copy st cdf (\<lambda>c. frequency c \<ge> 2)
     in if length (st ! repeat) < 10
        then (st, CLV_Failure ''Need at least 10 repeat customers for CLV analysis'')
        else
          (let st = df_assign st repeat
                      (map (\<lambda>c. c\<lparr>clv := Some (avg_spend c * real_of_int (frequency c) * 1.2)\<rparr>));
               mean_clv = series_mean (map (\<lambda>c. the (clv c)) (st ! repeat));
               sum_clv = sum_list (map (\<lambda>c. the (clv c)) (st ! repeat));
               (st, top) = df_new st (nlargest (top_count (length (st ! repeat)))
                                        (\<lambda>c. the (clv c)) (st ! repeat));
               top_10_pct = series_mean (map (\<lambda>c. the (clv c)) (st ! top));
               (st, all_customers) = df_copy st cdf;
               st = df_assign st all_customers
                      (map (\<lambda>c. c\<lparr>projected_clv_if_regular := Some (avg_spend c * 12)\<rparr>));
               med = series_median (map avg_spend (st ! all_customers));
               (st, gems) = df_new st
                      (nlargest 10 avg_spend
                         (filter (\<lambda>c. frequency c \<le> 4 \<and> nan_gt (Some (avg_spend c)) med)
                            (st ! all_customers)))
           in (st, CLV_Success \<lparr>repeat_customers = st ! repeat, avg_clv = mean_clv,
                                 total_clv = sum_clv, top_10_pct_clv = top_10_pct,
                                 hidden_gems = st ! gems,
                                 n_repeat = length (st ! repeat)\<rparr>)))"

section \<open>The specification's formulas\<close>










text \<open>The lifetime value of a customer, the size of the top group (a tenth of the repeat
  customers, rounded down, but at least one) and the mean, as the specification words
  them.\<close>

definition spec_clv :: "row \<Rightarrow> real" where
  "spec_clv c = avg_spend c * real_of_int (frequency c) * 1.2"

definition spec_top_size :: "nat \<Rightarrow> nat" where
  "spec_top_size n = max 1 (nat \<lfloor>real n * 0.1\<rfloor>)"

definition spec_mean :: "real list \<Rightarrow> real" where
  "spec_mean xs = sum_list xs / real (length xs)"

text \<open>The three bands of the fit quality: good below 2, moderate below 4, poor
  otherwise.\<close>

definition spec_fit_quality :: "real \<Rightarrow> string" where
  "spec_fit_quality ratio =
     (if ratio < 2 then ''good'' else if ratio < 4 then ''moderate'' else ''poor'')"

section \<open>Auxiliary definitions\<close>

text \<open>What \<^verbatim>\<open>calculate_churn_probability\<close> does to one row, given the two maxima.\<close>

definition churn_row :: "real option \<Rightarrow> real option \<Rightarrow> row \<Rightarrow> row" where
  "churn_row max_days max_freq c =
    (let rs = (if nan_gt max_days (Some 0)
               then float64 (days_since_visit c / the max_days) else 0);
         fs = (if nan_gt max_freq (Some 0)
               then float64 (1 - float64 (float64 (real_of_int (frequency c))
                                          / float64 (the max_freq)))
               else 0);
         p = clip 0 1 (float64 (float64 (rs * float64 0.7) + float64 (fs * float64 0.3)))
     in c\<lparr>recency_score := Some rs, frequency_score := Some fs, p_churn := Some p,
          risk_level := Some (risk_level_of p)\<rparr>)"

text \<open>The bounds given to the optimiser, \<^verbatim>\<open>[(0.01, 100), (0.01, 100)]\<close>, as a predicate on
  the point it returns.\<close>

definition in_bounds :: "real \<times> real \<Rightarrow> bool" where
  "in_bounds x = (0.01 \<le> fst x \<and> fst x \<le> 100 \<and> 0.01 \<le> snd x \<and> snd x \<le> 100)"

section \<open>Concrete inputs\<close>

text \<open>The log-gamma function on the positive integers, where \<open>\<Gamma>(n) = (n - 1)!\<close>.\<close>

definition gammaln_int :: "real \<Rightarrow> real" where
  "gammaln_int z = ln (fact (nat \<lfloor>z\<rfloor> - 1))"

text \<open>An optimiser that makes no progress: it returns its starting point, clipped to the
  bounds as L-BFGS-B clips it.\<close>

definition start_only :: minimizer where
  "start_only obj x0 bnds =
    (let x = (min (snd (fst bnds)) (max (fst (fst bnds)) (fst x0)),
              min (snd (snd bnds)) (max (fst (snd bnds)) (snd x0)))
     in \<lparr>opt_x = x, opt_fun = obj x\<rparr>)"

text \<open>Ten customers with two to eleven visits of 100 each.\<close>

definition ten_repeat_customers :: frame where
  "ten_repeat_customers =
     [customer ''c02'' 2 200 100 40, customer ''c03'' 3 300 100 35,
      customer ''c04'' 4 400 100 30, customer ''c05'' 5 500 100 25,
      customer ''c06'' 6 600 100 20, customer ''c07'' 7 700 100 15,
      customer ''c08'' 8 800 100 10, customer ''c09'' 9 900 100 5,
      customer ''c10'' 10 1000 100 2, customer ''c11'' 11 1100 100 0]"

section \<open>Segmentation\<close>

lemma assign_segment_cases:
  "assign_segment f =
     (if 1 \<le> f \<and> f \<le> 2 then ''Explorer''
      else if 3 \<le> f \<and> f \<le> 8 then ''Casual''
      else if 9 \<le> f \<and> f \<le> 12 then ''Regular''
      else if 13 \<le> f \<and> f \<le> 999 then ''Superuser''
      else ''Explorer'')"
  by (simp add: assign_segment_def SEGMENT_DEFINITIONS_def)

text \<open>
  C2 (the tiers partition the positive integers, Superuser for every frequency from 13 on).
  The range of Superuser ends at 999, although its own description reads "13+ visits":
  a customer with 1000 visits falls through every range and gets the fallback, Explorer.
\<close>

theorem assign_segment_1000: "assign_segment 1000 = ''Explorer''"
  by (simp add: assign_segment_def SEGMENT_DEFINITIONS_def)

section \<open>Rounding to float64\<close>

lemma two_powi_powr: "(2::real) powi e = 2 powr (real_of_int e)"
  by (simp add: powr_real_of_int')

lemma floor_log2_eq:
  fixes x :: real
  assumes "2 powi e \<le> \<bar>x\<bar>" and "\<bar>x\<bar> < 2 powi (e + 1)"
  shows "\<lfloor>log 2 \<bar>x\<bar>\<rfloor> = e"
proof -
  have pos: "0 < \<bar>x\<bar>" using assms(1) by (smt (verit) zero_less_power_int)
  have "real_of_int e \<le> log 2 \<bar>x\<bar>"
    using assms(1) pos by (simp add: le_log_iff two_powi_powr)
  moreover have "log 2 \<bar>x\<bar> < real_of_int e + 1"
    using assms(2) pos by (simp add: log_less_iff two_powi_powr)
  ultimately show ?thesis by (simp add: floor_unique)
qed

text \<open>The double nearest to a number whose binary exponent is known.\<close>

lemma float64_is:
  assumes "2 powi e \<le> \<bar>x\<bar>" and "\<bar>x\<bar> < 2 powi (e + 1)" and "- 1022 \<le> e"
    and "round_half_even (x / 2 powi (e - 52)) = n"
    and "y = of_int n * 2 powi (e - 52)"
  shows "float64 x = y"
proof -
  have "x \<noteq> 0" using assms(1) by (smt (verit) zero_less_power_int abs_zero)
  moreover have "max (\<lfloor>log 2 \<bar>x\<bar>\<rfloor> - 52) (- 1074) = e - 52"
    using floor_log2_eq [OF assms(1,2)] assms(3) by simp
  ultimately show ?thesis using assms(4,5) by (simp add: float64_def Let_def)
qed

lemma round_half_even_nonneg: "0 \<le> x \<Longrightarrow> 0 \<le> round_half_even x"
  by (simp add: round_half_even_def Let_def)

lemma round_half_even_le: "x \<le> of_int n \<Longrightarrow> round_half_even x \<le> n"
proof -
  assume le: "x \<le> of_int n"
  show ?thesis
  proof (cases "x = of_int n")
    case True
    then show ?thesis by (simp add: round_half_even_def Let_def)
  next
    case False
    with le have "x < of_int n" by simp
    then have "\<lfloor>x\<rfloor> < n" by (simp add: floor_less_iff)
    then show ?thesis by (simp add: round_half_even_def Let_def)
  qed
qed

text \<open>Rounding keeps a share inside the unit interval.\<close>

lemma float64_unit_interval:
  assumes "0 \<le> x" and "x \<le> 1"
  shows "0 \<le> float64 x \<and> float64 x \<le> 1"
proof (cases "x = 0")
  case True
  then show ?thesis by (simp add: float64_def)
next
  case False
  define e where "e = max (\<lfloor>log 2 \<bar>x\<bar>\<rfloor> - 52) (- 1074)"
  have x: "0 < x" using assms(1) False by simp
  have "log 2 \<bar>x\<bar> \<le> 0" using x assms(2) by simp
  then have "\<lfloor>log 2 \<bar>x\<bar>\<rfloor> \<le> 0" by (simp add: floor_le_iff)
  then have e: "e \<le> 0" by (simp add: e_def)
  have p: "0 < (2::real) powi e" by simp
  have fl: "float64 x = of_int (round_half_even (x / 2 powi e)) * 2 powi e"
    using False by (simp add: float64_def Let_def e_def)
  have "0 \<le> x / 2 powi e" using x p by simp
  then have lo: "0 \<le> round_half_even (x / 2 powi e)" by (rule round_half_even_nonneg)
  have inv: "1 / (2::real) powi e = of_int (2 ^ nat (- e))"
    using e by (simp add: power_int_def power_one_over)
  have "x / 2 powi e \<le> 1 / 2 powi e" using assms(2) p by (simp add: divide_right_mono)
  then have "round_half_even (x / 2 powi e) \<le> 2 ^ nat (- e)"
    unfolding inv by (rule round_half_even_le)
  then have le1: "real_of_int (round_half_even (x / 2 powi e)) \<le> 1 / 2 powi e"
    unfolding inv by (simp only: of_int_le_iff)
  have p0: "0 \<le> (2::real) powi e" using p by simp
  have "real_of_int (round_half_even (x / 2 powi e)) * 2 powi e \<le> 1 / 2 powi e * 2 powi e"
    using le1 p0 by (rule mult_right_mono)
  moreover have "1 / (2::real) powi e * 2 powi e = 1" using p by simp
  ultimately have hi: "float64 x \<le> 1" by (simp only: fl)
  have "0 \<le> real_of_int (round_half_even (x / 2 powi e)) * 2 powi e"
    using lo p0 by simp
  then have "0 \<le> float64 x" by (simp only: fl)
  with hi show ?thesis by simp
qed

text \<open>The doubles that the examples below meet.\<close>

lemma f64_1: "float64 (1 / 4) = 1 / 4"
  by (rule float64_is [where e = "- 2" and n = "4503599627370496"])
     (simp_all add: round_half_even_def Let_def)

lemma f64_2: "float64 1 = 1"
  by (rule float64_is [where e = "0" and n = "4503599627370496"])
     (simp_all add: round_half_even_def Let_def)

lemma f64_3: "float64 4 = 4"
  by (rule float64_is [where e = "2" and n = "4503599627370496"])
     (simp_all add: round_half_even_def Let_def)

lemma f64_4: "float64 (3 / 4) = 3 / 4"
  by (rule float64_is [where e = "- 1" and n = "6755399441055744"])
     (simp_all add: round_half_even_def Let_def)

lemma f64_5: "float64 (7 / 10) = 3152519739159347 / 4503599627370496"
  by (rule float64_is [where e = "- 1" and n = "6305039478318694"])
     (simp_all add: round_half_even_def Let_def)

lemma f64_6: "float64 (3152519739159347 / 18014398509481984) = 3152519739159347 / 18014398509481984"
  by (rule float64_is [where e = "- 3" and n = "6305039478318694"])
     (simp_all add: round_half_even_def Let_def)

lemma f64_7: "float64 (3 / 10) = 5404319552844595 / 18014398509481984"
  by (rule float64_is [where e = "- 2" and n = "5404319552844595"])
     (simp_all add: round_half_even_def Let_def)

lemma f64_8: "float64 (16212958658533785 / 72057594037927936) = 2026619832316723 / 9007199254740992"
  by (rule float64_is [where e = "- 3" and n = "8106479329266892"])
     (simp_all add: round_half_even_def Let_def)

lemma f64_9: "float64 (7205759403792793 / 18014398509481984) = 7205759403792793 / 18014398509481984"
  by (rule float64_is [where e = "- 2" and n = "7205759403792793"])
     (simp_all add: round_half_even_def Let_def)

lemma f64_10: "float64 (2 / 5) = 3602879701896397 / 9007199254740992"
  by (rule float64_is [where e = "- 2" and n = "7205759403792794"])
     (simp_all add: round_half_even_def Let_def)

lemma f64_11: "float64 (- (1 / 2)) = - (1 / 2)"
  by (rule float64_is [where e = "- 1" and n = "- 4503599627370496"])
     (simp_all add: round_half_even_def Let_def)

lemma f64_12: "float64 (- (3152519739159347 / 9007199254740992)) = - (3152519739159347 / 9007199254740992)"
  by (rule float64_is [where e = "- 2" and n = "- 6305039478318694"])
     (simp_all add: round_half_even_def Let_def)

lemma f64_13: "float64 (- (1 / 8)) = - (1 / 8)"
  by (rule float64_is [where e = "- 3" and n = "- 4503599627370496"])
     (simp_all add: round_half_even_def Let_def)

lemma f64_14: "float64 (1 / 3) = 6004799503160661 / 18014398509481984"
  by (rule float64_is [where e = "- 2" and n = "6004799503160661"])
     (simp_all add: round_half_even_def Let_def)

lemma f64_15: "float64 9 = 9"
  by (rule float64_is [where e = "3" and n = "5066549580791808"])
     (simp_all add: round_half_even_def Let_def)

lemma f64_16: "float64 (4 / 9) = 2001599834386887 / 4503599627370496"
  by (rule float64_is [where e = "- 2" and n = "8006399337547548"])
     (simp_all add: round_half_even_def Let_def)

lemma f64_17: "float64 (2501999792983609 / 4503599627370496) = 2501999792983609 / 4503599627370496"
  by (rule float64_is [where e = "- 1" and n = "5003999585967218"])
     (simp_all add: round_half_even_def Let_def)

lemma f64_18: "float64 (18930248963408223477217620848367 / 81129638414606681695789005144064) = 8406719304424925 / 36028797018963968"
  by (rule float64_is [where e = "- 3" and n = "8406719304424925"])
     (simp_all add: round_half_even_def Let_def)

lemma f64_19: "float64 (13521606402434447049378159243355 / 81129638414606681695789005144064) = 6004799503160661 / 36028797018963968"
  by (rule float64_is [where e = "- 3" and n = "6004799503160661"])
     (simp_all add: round_half_even_def Let_def)

lemma f64_20: "float64 (1 / 10) = 3602879701896397 / 36028797018963968"
  by (rule float64_is [where e = "- 4" and n = "7205759403792794"])
     (simp_all add: round_half_even_def Let_def)

lemma f64_21: "float64 (10808639105689191 / 36028797018963968) = 1351079888211149 / 4503599627370496"
  by (rule float64_is [where e = "- 2" and n = "5404319552844596"])
     (simp_all add: round_half_even_def Let_def)

lemma f64_22: "float64 (32425917317067573 / 36028797018963968) = 8106479329266893 / 9007199254740992"
  by (rule float64_is [where e = "- 1" and n = "8106479329266893"])
     (simp_all add: round_half_even_def Let_def)

lemma f64_23: "float64 (2702159776422298 / 8106479329266893) = 3002399751580331 / 9007199254740992"
  by (rule float64_is [where e = "- 2" and n = "6004799503160662"])
     (simp_all add: round_half_even_def Let_def)

lemma f64_24: "float64 (9465124481704113314868680003857 / 40564819207303340847894502572032) = 4203359652212463 / 18014398509481984"
  by (rule float64_is [where e = "- 3" and n = "8406719304424926"])
     (simp_all add: round_half_even_def Let_def)

lemma f64_25: "float64 (14411518807585587 / 36028797018963968) = 3602879701896397 / 9007199254740992"
  by (rule float64_is [where e = "- 2" and n = "7205759403792794"])
     (simp_all add: round_half_even_def Let_def)

lemmas float64_values =
  f64_1 f64_2 f64_3 f64_4 f64_5 f64_6 f64_7 f64_8 f64_9 f64_10 f64_11 f64_12 f64_13 f64_14 f64_15 f64_16 f64_17 f64_18 f64_19 f64_20 f64_21 f64_22 f64_23 f64_24 f64_25

section \<open>Churn scorer\<close>


lemma calculate_churn_probability_rows:
  "calculate_churn_probability df =
     map (churn_row (series_max (map days_since_visit df))
            (series_max (map (\<lambda>c. real_of_int (frequency c)) df))) df"
  unfolding calculate_churn_probability_def churn_row_def Let_def
  by (cases "nan_gt (series_max (map days_since_visit df)) (Some 0)";
      cases "nan_gt (series_max (map (\<lambda>c. real_of_int (frequency c)) df)) (Some 0)")
     (simp_all add: comp_def)

lemma fold_max_scale:
  fixes k :: real
  assumes "0 < k"
  shows "fold max (map ((*) k) xs) (k * x) = k * fold max xs x"
  using assms
proof (induction xs arbitrary: x)
  case Nil
  then show ?case by simp
next
  case (Cons y ys)
  have "max (k * y) (k * x) = k * max y x"
    using Cons.prems by (simp add: max_def)
  then show ?case using Cons by simp
qed

lemma series_max_scale:
  fixes k :: real
  assumes "0 < k"
  shows "series_max (map ((*) k) xs) = map_option ((*) k) (series_max xs)"
  using assms by (cases xs) (simp_all add: fold_max_scale)

lemma risk_level_churn_row:
  "\<exists>p. p_churn (churn_row a b c) = Some p \<and> risk_level (churn_row a b c) = Some (risk_level_of p)"
  by (simp add: churn_row_def Let_def)

lemma three_way_count:
  assumes "\<forall>x \<in> set xs. f x = a \<or> f x = b \<or> f x = c" and "a \<noteq> b" and "a \<noteq> c" and "b \<noteq> c"
  shows "length (filter (\<lambda>x. f x = a) xs) + length (filter (\<lambda>x. f x = b) xs)
         + length (filter (\<lambda>x. f x = c) xs) = length xs"
  using assms by (induction xs) auto

lemma risk_level_of_cases:
  "risk_level_of p = ''high'' \<or> risk_level_of p = ''medium'' \<or> risk_level_of p = ''low''"
  by (simp add: risk_level_of_def)

lemma churn_risk_levels:
  "\<forall>c \<in> set (calculate_churn_probability df).
      risk_level c = Some ''high'' \<or> risk_level c = Some ''medium'' \<or> risk_level c = Some ''low''"
proof
  fix c assume "c \<in> set (calculate_churn_probability df)"
  then obtain c0 a b where c: "c = churn_row a b c0"
    unfolding calculate_churn_probability_rows by auto
  obtain p where "risk_level c = Some (risk_level_of p)"
    using risk_level_churn_row [of a b c0] c by auto
  then show "risk_level c = Some ''high'' \<or> risk_level c = Some ''medium'' \<or> risk_level c = Some ''low''"
    using risk_level_of_cases [of p] by auto
qed

lemma one_label:
  assumes "l = Some ''high'' \<or> l = Some ''medium'' \<or> l = Some ''low''"
  shows "length (filter (\<lambda>x. l = Some x) [''high'', ''medium'', ''low'']) = 1"
  using assms by auto

lemma length_calculate_churn_probability:
  "length (calculate_churn_probability df) = length df"
  by (simp add: calculate_churn_probability_rows)

lemma churn_counts:
  "length (filter (\<lambda>c. risk_level c = Some ''high'') (calculate_churn_probability df))
   + length (filter (\<lambda>c. risk_level c = Some ''medium'') (calculate_churn_probability df))
   + length (filter (\<lambda>c. risk_level c = Some ''low'') (calculate_churn_probability df))
   = length df"
  using three_way_count [OF churn_risk_levels, of df]
  by (simp add: length_calculate_churn_probability)

text \<open>
  C10: for a non-empty aggregate the churn summary is returned; every customer of its
  table carries exactly one of the three risk levels, the three counts are the numbers of
  customers with each level and add up to the number of customers, and the still-active
  share lies between 0 and 1.
\<close>

theorem churn_summary_partition:
  assumes "cdf \<noteq> []"
  shows "\<exists>s. get_churn_summary cdf = Inr s
           \<and> customer_df s = calculate_churn_probability cdf
           \<and> length (customer_df s) = length cdf
           \<and> (\<forall>c \<in> set (customer_df s).
                 length (filter (\<lambda>l. risk_level c = Some l) [''high'', ''medium'', ''low'']) = 1)
           \<and> high_risk_count s
               = length (filter (\<lambda>c. risk_level c = Some ''high'') (customer_df s))
           \<and> medium_risk_count s
               = length (filter (\<lambda>c. risk_level c = Some ''medium'') (customer_df s))
           \<and> low_risk_count s
               = length (filter (\<lambda>c. risk_level c = Some ''low'') (customer_df s))
           \<and> high_risk_count s + medium_risk_count s + low_risk_count s = length cdf
           \<and> 0 \<le> still_active_pct s \<and> still_active_pct s \<le> 1"
proof -
  let ?df = "calculate_churn_probability cdf"
  let ?low = "filter (\<lambda>c. risk_level c = Some ''low'') ?df"
  have len: "length ?df = length cdf" by (rule length_calculate_churn_probability)
  have pos: "0 < length cdf" using assms by simp
  have le: "length ?low \<le> length cdf" using length_filter_le [of _ ?df] len by simp
  have "0 \<le> real (length ?low) / real (length cdf) \<and> real (length ?low) / real (length cdf) \<le> 1"
    using pos le by simp
  then have frac: "0 \<le> float64 (real (length ?low) / real (length cdf))
                 \<and> float64 (real (length ?low) / real (length cdf)) \<le> 1"
    using float64_unit_interval by blast
  have ne: "?df \<noteq> []" using len pos by (metis length_greater_0_conv)
  have one: "\<forall>c \<in> set ?df.
               length (filter (\<lambda>l. risk_level c = Some l) [''high'', ''medium'', ''low'']) = 1"
    using churn_risk_levels [of cdf] one_label by blast
  obtain s where s: "get_churn_summary cdf = Inr s" "customer_df s = ?df"
    "high_risk_count s = length (filter (\<lambda>c. risk_level c = Some ''high'') ?df)"
    "medium_risk_count s = length (filter (\<lambda>c. risk_level c = Some ''medium'') ?df)"
    "low_risk_count s = length ?low"
    "still_active_pct s = float64 (real (length ?low) / real (length cdf))"
    using pos ne by (simp add: get_churn_summary_def Let_def py_truediv_def len)
  show ?thesis
    using s one len frac churn_counts [of cdf] by auto
qed

text \<open>The summary of two customers.\<close>

theorem churn_summary_partition_witness:
  "\<exists>s. get_churn_summary
               [customer ''ann'' 1 90 90 30, customer ''bob'' 4 380 95 0] = Inr s
           \<and> customer_df s = calculate_churn_probability
               [customer ''ann'' 1 90 90 30, customer ''bob'' 4 380 95 0]
           \<and> length (customer_df s) = length
               [customer ''ann'' 1 90 90 30, customer ''bob'' 4 380 95 0]
           \<and> (\<forall>c \<in> set (customer_df s).
                 length (filter (\<lambda>l. risk_level c = Some l) [''high'', ''medium'', ''low'']) = 1)
           \<and> high_risk_count s
               = length (filter (\<lambda>c. risk_level c = Some ''high'') (customer_df s))
           \<and> medium_risk_count s
               = length (filter (\<lambda>c. risk_level c = Some ''medium'') (customer_df s))
           \<and> low_risk_count s
               = length (filter (\<lambda>c. risk_level c = Some ''low'') (customer_df s))
           \<and> high_risk_count s + medium_risk_count s + low_risk_count s = length
               [customer ''ann'' 1 90 90 30, customer ''bob'' 4 380 95 0]
           \<and> 0 \<le> still_active_pct s \<and> still_active_pct s \<le> 1"
proof -
  have h: "[customer ''ann'' 1 90 90 30, customer ''bob'' 4 380 95 0] \<noteq> []" by simp
  show ?thesis using churn_summary_partition [OF h] .
qed






lemma churn_row_scale:
  fixes k :: real
  assumes "0 < k"
  shows "p_churn (churn_row (map_option ((*) k) md) mf (c\<lparr>days_since_visit := k * days_since_visit c\<rparr>))
           = p_churn (churn_row md mf c)
       \<and> risk_level (churn_row (map_option ((*) k) md) mf (c\<lparr>days_since_visit := k * days_since_visit c\<rparr>))
           = risk_level (churn_row md mf c)"
proof (cases md)
  case None
  then show ?thesis by (simp add: churn_row_def Let_def)
next
  case (Some m)
  have "(0 < k * m) = (0 < m)" using assms by (simp add: zero_less_mult_iff)
  moreover have "k * days_since_visit c / (k * m) = days_since_visit c / m"
    using assms by simp
  ultimately show ?thesis using Some by (simp add: churn_row_def Let_def)
qed

text \<open>
  C8, as the code has it: multiplying every \<^verbatim>\<open>days_since_visit\<close> by the same positive
  constant changes no customer's churn probability and no risk level, provided that the
  products are exact, that is, that float64 rounds none of them.
\<close>

theorem churn_invariant_under_exact_rescaling:
  fixes k :: real
  assumes "0 < k"
    and "\<forall>c \<in> set cdf. float64 (k * days_since_visit c) = k * days_since_visit c"
  shows "map p_churn (calculate_churn_probability
                        (map (\<lambda>c. c\<lparr>days_since_visit := float64 (k * days_since_visit c)\<rparr>) cdf))
           = map p_churn (calculate_churn_probability cdf)
       \<and> map risk_level (calculate_churn_probability
                        (map (\<lambda>c. c\<lparr>days_since_visit := float64 (k * days_since_visit c)\<rparr>) cdf))
           = map risk_level (calculate_churn_probability cdf)"
proof -
  have exact: "map (\<lambda>c. c\<lparr>days_since_visit := float64 (k * days_since_visit c)\<rparr>) cdf
                 = map (\<lambda>c. c\<lparr>days_since_visit := k * days_since_visit c\<rparr>) cdf"
    using assms(2) by simp
  have "map days_since_visit (map (\<lambda>c. c\<lparr>days_since_visit := k * days_since_visit c\<rparr>) cdf)
          = map ((*) k) (map days_since_visit cdf)"
    by simp
  then have md: "series_max (map days_since_visit
                     (map (\<lambda>c. c\<lparr>days_since_visit := k * days_since_visit c\<rparr>) cdf))
          = map_option ((*) k) (series_max (map days_since_visit cdf))"
    using series_max_scale [OF assms(1), of "map days_since_visit cdf"] by (simp only:)
  have mf: "map (\<lambda>c. real_of_int (frequency c))
              (map (\<lambda>c. c\<lparr>days_since_visit := k * days_since_visit c\<rparr>) cdf)
            = map (\<lambda>c. real_of_int (frequency c)) cdf"
    by simp
  show ?thesis
    unfolding exact calculate_churn_probability_rows md mf
    using churn_row_scale [OF assms(1)] by (simp add: comp_def)
qed

text \<open>Doubling the days of two customers: 60 and 0 are doubles.\<close>

theorem churn_invariant_under_exact_rescaling_witness:
  "map p_churn (calculate_churn_probability
      (map (\<lambda>c. c\<lparr>days_since_visit := float64 (2 * days_since_visit c)\<rparr>)
         [customer ''ann'' 1 90 90 30, customer ''bob'' 4 380 95 0]))
   = map p_churn (calculate_churn_probability
         [customer ''ann'' 1 90 90 30, customer ''bob'' 4 380 95 0])"
proof -
  have sixty: "float64 60 = 60"
    by (rule float64_is [where e = 5 and n = "60 * 2 ^ 47"])
       (simp_all add: round_half_even_def Let_def)
  have zero: "float64 0 = 0" by (simp add: float64_def)
  have h: "\<forall>c \<in> set [customer ''ann'' 1 90 90 30, customer ''bob'' 4 380 95 0].
             float64 (2 * days_since_visit c) = 2 * days_since_visit c"
    by (simp add: customer_def sixty zero)
  show ?thesis
    using churn_invariant_under_exact_rescaling [of 2, OF _ h] by simp
qed

text \<open>
  C8 as stated fails: with days 3 and 9 and frequencies 4 and 9 the first customer has the
  churn probability 0.39999999999999997 and the band low; after every day count is
  multiplied by 0.1 the rounded products are 0.30000000000000004 and 0.9, the churn
  probability is 0.4 and the band medium.
\<close>

theorem churn_invariant_under_rescaling_counterexample:
  "p_churn (calculate_churn_probability
       [customer ''ann'' 4 360 90 3, customer ''bob'' 9 810 90 9] ! 0)
     = Some (7205759403792793 / 18014398509481984)
   \<and> risk_level (calculate_churn_probability
       [customer ''ann'' 4 360 90 3, customer ''bob'' 9 810 90 9] ! 0) = Some ''low''
   \<and> p_churn (calculate_churn_probability
       (map (\<lambda>c. c\<lparr>days_since_visit := float64 (float64 0.1 * days_since_visit c)\<rparr>)
          [customer ''ann'' 4 360 90 3, customer ''bob'' 9 810 90 9]) ! 0)
     = Some (3602879701896397 / 9007199254740992)
   \<and> risk_level (calculate_churn_probability
       (map (\<lambda>c. c\<lparr>days_since_visit := float64 (float64 0.1 * days_since_visit c)\<rparr>)
          [customer ''ann'' 4 360 90 3, customer ''bob'' 9 810 90 9]) ! 0) = Some ''medium''"
  by (simp add: calculate_churn_probability_rows churn_row_def customer_def Let_def
      clip_def risk_level_of_def float64_values)

section \<open>Value model\<close>

text \<open>
  C4: the value model returns the failure result with its message exactly when fewer than
  10 customers have a frequency of 2 or more, and a success result exactly when 10 or more
  have.
\<close>

theorem value_model_threshold:
  "(fit_gamma_gamma cdf = CLV_Failure ''Need at least 10 repeat customers for CLV analysis'')
     = (length (filter (\<lambda>c. 2 \<le> frequency c) cdf) < 10)
   \<and> success (fit_gamma_gamma cdf) = (10 \<le> length (filter (\<lambda>c. 2 \<le> frequency c) cdf))"
  by (simp add: fit_gamma_gamma_def Let_def)

text \<open>Ten repeat customers are enough, the first nine of them are not.\<close>

theorem value_model_threshold_witness:
  "success (fit_gamma_gamma ten_repeat_customers)
   \<and> fit_gamma_gamma (take 9 ten_repeat_customers)
       = CLV_Failure ''Need at least 10 repeat customers for CLV analysis''"
  using value_model_threshold [of ten_repeat_customers]
    value_model_threshold [of "take 9 ten_repeat_customers"]
  by (simp add: ten_repeat_customers_def customer_def)

lemma top_count_spec: "top_count n = max 1 (nat \<lfloor>real n * 0.1\<rfloor>)"
proof -
  have "\<And>k::nat. (if k = 0 then 1 else k) = max 1 k" by simp
  then show ?thesis unfolding top_count_def Let_def by blast
qed

lemma sorted_rev_neg:
  fixes ys :: "real list"
  shows "sorted (map uminus ys) \<Longrightarrow> sorted (rev ys)"
  by (induction ys) (auto simp: sorted_append)

lemma map_sort_desc:
  fixes f :: "'a \<Rightarrow> real"
  shows "map f (sort_key (\<lambda>c. - f c) xs) = rev (sort (map f xs))"
proof -
  let ?ys = "map f (sort_key (\<lambda>c. - f c) xs)"
  have "sorted (map (\<lambda>c. - f c) (sort_key (\<lambda>c. - f c) xs))" by (rule sorted_sort_key)
  then have "sorted (map uminus ?ys)" by (simp add: comp_def)
  then have s: "sorted (rev ?ys)" by (rule sorted_rev_neg)
  have m: "mset (rev ?ys) = mset (map f xs)" by simp
  have "sort (map f xs) = rev ?ys"
    using properties_for_sort [OF m s] .
  then show ?thesis by simp
qed

lemma nlargest_values:
  "map f (nlargest k f df) = take k (rev (sort (map f df)))"
  by (simp only: nlargest_def take_map [symmetric] map_sort_desc)

lemma spec_top_size_le: "10 \<le> n \<Longrightarrow> 1 \<le> spec_top_size n \<and> spec_top_size n \<le> n"
  unfolding spec_top_size_def by (simp add: max_def) linarith

lemma ten_repeat: "filter (\<lambda>c. 2 \<le> frequency c) ten_repeat_customers = ten_repeat_customers"
  by (simp add: ten_repeat_customers_def customer_def)

lemma ten_clvs:
  "map spec_clv ten_repeat_customers = [240, 360, 480, 600, 720, 840, 960, 1080, 1200, 1320]"
  by (simp add: ten_repeat_customers_def customer_def spec_clv_def)

text \<open>
  C6: with at least 10 repeat customers the value model gives each of them the lifetime
  value \<open>avg_spend \<times> frequency \<times> 1.2\<close> and reports the mean and the total of these values
  and the mean of the largest ones, where the top group has a tenth of the repeat
  customers, rounded down, and at least one.
\<close>

theorem clv_summary_statistics:
  assumes "10 \<le> length (filter (\<lambda>c. 2 \<le> frequency c) cdf)"
  shows "\<exists>fit. fit_gamma_gamma cdf = CLV_Success fit
           \<and> map clv (repeat_customers fit)
               = map (\<lambda>c. Some (spec_clv c)) (filter (\<lambda>c. 2 \<le> frequency c) cdf)
           \<and> avg_clv fit = Some (spec_mean (map spec_clv (filter (\<lambda>c. 2 \<le> frequency c) cdf)))
           \<and> total_clv fit = sum_list (map spec_clv (filter (\<lambda>c. 2 \<le> frequency c) cdf))
           \<and> top_10_pct_clv fit
               = Some (spec_mean (take (spec_top_size (length (filter (\<lambda>c. 2 \<le> frequency c) cdf)))
                                   (rev (sort (map spec_clv (filter (\<lambda>c. 2 \<le> frequency c) cdf))))))
           \<and> length (take (spec_top_size (length (filter (\<lambda>c. 2 \<le> frequency c) cdf)))
                         (rev (sort (map spec_clv (filter (\<lambda>c. 2 \<le> frequency c) cdf)))))
               = spec_top_size (length (filter (\<lambda>c. 2 \<le> frequency c) cdf))"
proof -
  let ?rep = "filter (\<lambda>c. 2 \<le> frequency c) cdf"
  let ?rep' = "map (\<lambda>c. c\<lparr>clv := Some (avg_spend c * real_of_int (frequency c) * 1.2)\<rparr>) ?rep"
  let ?k = "spec_top_size (length ?rep)"
  have vals: "map (\<lambda>c. the (clv c)) ?rep' = map spec_clv ?rep"
    by (simp add: spec_clv_def comp_def)
  have k: "1 \<le> ?k" "?k \<le> length ?rep" using spec_top_size_le [OF assms] by simp_all
  have top: "map (\<lambda>c. the (clv c)) (nlargest (top_count (length ?rep')) (\<lambda>c. the (clv c)) ?rep')
               = take ?k (rev (sort (map spec_clv ?rep)))"
    unfolding nlargest_values vals by (simp add: top_count_spec spec_top_size_def)
  have len: "length (take ?k (rev (sort (map spec_clv ?rep)))) = ?k" using k by simp
  have ne: "take ?k (rev (sort (map spec_clv ?rep))) \<noteq> []" using len k by (metis length_0_conv not_one_le_zero)
  have ne2: "?rep \<noteq> []" using assms by auto
  have cl: "map clv ?rep' = map (\<lambda>c. Some (spec_clv c)) ?rep"
    by (simp add: spec_clv_def comp_def)
  obtain g where eq: "fit_gamma_gamma cdf =
          CLV_Success \<lparr>repeat_customers = ?rep',
             avg_clv = series_mean (map (\<lambda>c. the (clv c)) ?rep'),
             total_clv = sum_list (map (\<lambda>c. the (clv c)) ?rep'),
             top_10_pct_clv = series_mean (map (\<lambda>c. the (clv c))
                 (nlargest (top_count (length ?rep')) (\<lambda>c. the (clv c)) ?rep')),
             hidden_gems = g,
             n_repeat = length ?rep'\<rparr>"
    using assms unfolding fit_gamma_gamma_def Let_def by simp
  have a: "series_mean (map spec_clv ?rep) = Some (spec_mean (map spec_clv ?rep))"
    using ne2 by (simp add: series_mean_def spec_mean_def)
  have b: "series_mean (take ?k (rev (sort (map spec_clv ?rep))))
             = Some (spec_mean (take ?k (rev (sort (map spec_clv ?rep)))))"
    using ne by (simp add: series_mean_def spec_mean_def)
  show ?thesis
    unfolding eq top vals a b len
    by (simp add: spec_clv_def comp_def)
qed

text \<open>Ten repeat customers: the values run from 240 to 1320, the top group is the one
  customer with 1320.\<close>

theorem clv_summary_statistics_witness:
  "\<exists>fit. fit_gamma_gamma ten_repeat_customers = CLV_Success fit
      \<and> avg_clv fit = Some 780 \<and> total_clv fit = 7800 \<and> top_10_pct_clv fit = Some 1320"
proof -
  have h: "10 \<le> length (filter (\<lambda>c. 2 \<le> frequency c) ten_repeat_customers)"
    unfolding ten_repeat by (simp add: ten_repeat_customers_def)
  have k: "spec_top_size (length ten_repeat_customers) = 1"
    by (simp add: spec_top_size_def ten_repeat_customers_def)
  show ?thesis
    using clv_summary_statistics [OF h]
    unfolding ten_repeat ten_clvs k
    by (auto simp: spec_mean_def)
qed

section \<open>Frequency model\<close>

lemma length_value_counts_sorted:
  "length (value_counts_sorted xs) = card (set xs)"
  by (simp add: value_counts_sorted_def length_remdups_card_conv)

lemma ratio_step:
  "(case chi of None \<Rightarrow> Inr None
    | Some c \<Rightarrow> map_sum id Some (py_truediv c (real_of_int (max d 1))))
   = Inr (map_option (\<lambda>c. c / real_of_int (max d 1)) chi)"
  by (cases chi) (simp_all add: py_truediv_def max_def)

lemma quality_step:
  "(if nan_lt (map_option (\<lambda>c. c / m) chi) 2 then a
    else if nan_lt (map_option (\<lambda>c. c / m) chi) 4 then b else c)
   = (case chi of None \<Rightarrow> c
      | Some x \<Rightarrow> if x / m < 2 then a else if x / m < 4 then b else c)"
  by (cases chi) simp_all

lemma nbd_report_fields:
  "\<exists>res.
      nbd_report gammaln fc n mv result r alpha = Inr res
    \<and> nbd_r res = r \<and> nbd_alpha res = alpha
    \<and> n_observed res = n
    \<and> f0 res = np_truediv (real n * (alpha / (alpha + 1)) powr r)
                  (1 - (alpha / (alpha + 1)) powr r)
    \<and> total_market res = map_option (\<lambda>f. real n + f) (f0 res)
    \<and> market_reached res = Option.bind (total_market res) (np_truediv (real n))
    \<and> dof res = int (length fc) - 2
    \<and> freq_actual res = fc
    \<and> freq_predicted res =
          map (\<lambda>(x, cnt). (x, map_option (\<lambda>p. p * real n)
                 (np_truediv (exp (nbd_log_p gammaln r alpha x))
                    (1 - (alpha / (alpha + 1)) powr r))))
            fc
    \<and> chi_square res =
          np_sum (map (\<lambda>((x, cnt), (y, predicted)).
                         Option.bind predicted (\<lambda>p. np_truediv ((real cnt - p)\<^sup>2) p))
                    (zip (freq_actual res) (freq_predicted res)))
    \<and> fit_quality res =
         (case chi_square res of None \<Rightarrow> ''poor''
          | Some c \<Rightarrow> spec_fit_quality (c / real_of_int (max (dof res) 1)))"
  unfolding nbd_report_def Let_def ratio_step
  apply (simp only: sum.case split_def quality_step)
  apply (simp add: spec_fit_quality_def split_def split: option.splits)
  done

lemma fit_zt_nbd_report:
  "\<exists>obj x0.
     fit_zt_nbd gammaln minimize cdf
       = nbd_report gammaln (value_counts_sorted (map frequency cdf)) (length cdf)
           (series_mean (map (\<lambda>c. real_of_int (frequency c)) cdf))
           (minimize obj x0 ((0.01, 100), (0.01, 100)))
           (fst (opt_x (minimize obj x0 ((0.01, 100), (0.01, 100)))))
           (snd (opt_x (minimize obj x0 ((0.01, 100), (0.01, 100)))))"
  unfolding fit_zt_nbd_def Let_def split_def by blast

lemma p_zero_range:
  fixes r alpha :: real
  assumes "0 < r" and "0 < alpha"
  shows "0 < (alpha / (alpha + 1)) powr r \<and> (alpha / (alpha + 1)) powr r < 1"
proof -
  have b: "0 < alpha / (alpha + 1) \<and> alpha / (alpha + 1) < 1" using assms by simp
  then show ?thesis using assms powr01_less_one [of "alpha / (alpha + 1)" r] by simp
qed

lemma np_sum_Some:
  assumes "\<forall>x \<in> set xs. \<exists>v. x = Some v \<and> 0 \<le> v"
  shows "\<exists>s. np_sum xs = Some s \<and> 0 \<le> s"
  using assms
proof (induction xs)
  case Nil
  then show ?case by simp
next
  case (Cons x xs)
  then obtain v s where "x = Some v" "0 \<le> v" "np_sum xs = Some s" "0 \<le> s" by auto
  then show ?case by simp
qed

text \<open>
  C5: on a non-empty aggregate, with an optimiser that keeps its result inside the bounds
  \<open>[0.01, 100]\<close>, the frequency model returns, \<open>f0\<close> is a finite number that is not negative,
  and \<^verbatim>\<open>market_reached\<close> is \<open>n_observed / (n_observed + f0)\<close>, greater than 0 and at
  most 1.
\<close>

theorem market_estimates_in_range:
  assumes "cdf \<noteq> []"
    and "\<forall>obj x0. in_bounds (opt_x (minimize obj x0 ((0.01, 100), (0.01, 100))))"
  shows "\<exists>res f m. fit_zt_nbd gammaln minimize cdf = Inr res
            \<and> n_observed res = length cdf
            \<and> f0 res = Some f \<and> 0 \<le> f
            \<and> market_reached res = Some m
            \<and> m = real (n_observed res) / (real (n_observed res) + f)
            \<and> 0 < m \<and> m \<le> 1"
proof -
  obtain obj x0 where rep:
    "fit_zt_nbd gammaln minimize cdf
       = nbd_report gammaln (value_counts_sorted (map frequency cdf)) (length cdf)
           (series_mean (map (\<lambda>c. real_of_int (frequency c)) cdf))
           (minimize obj x0 ((0.01, 100), (0.01, 100)))
           (fst (opt_x (minimize obj x0 ((0.01, 100), (0.01, 100)))))
           (snd (opt_x (minimize obj x0 ((0.01, 100), (0.01, 100)))))"
    using fit_zt_nbd_report by blast
  define r where "r = fst (opt_x (minimize obj x0 ((0.01, 100), (0.01, 100))))"
  define alpha where "alpha = snd (opt_x (minimize obj x0 ((0.01, 100), (0.01, 100))))"
  have "in_bounds (opt_x (minimize obj x0 ((0.01, 100), (0.01, 100))))"
    using assms(2) by blast
  then have pos: "0 < r" "0 < alpha" by (simp_all add: in_bounds_def r_def alpha_def)
  define p where "p = (alpha / (alpha + 1)) powr r"
  have p: "0 < p" "p < 1" using p_zero_range [OF pos] by (simp_all add: p_def)
  define n where "n = real (length cdf)"
  have n: "0 < n" using assms(1) by (simp add: n_def)
  obtain res where res:
    "fit_zt_nbd gammaln minimize cdf = Inr res"
    "n_observed res = length cdf"
    "f0 res = np_truediv (n * p) (1 - p)"
    "total_market res = map_option (\<lambda>f. n + f) (f0 res)"
    "market_reached res = Option.bind (total_market res) (np_truediv n)"
    using nbd_report_fields [of gammaln "value_counts_sorted (map frequency cdf)" "length cdf"
        "series_mean (map (\<lambda>c. real_of_int (frequency c)) cdf)"
        "minimize obj x0 ((0.01, 100), (0.01, 100))" r alpha]
    unfolding rep r_def [symmetric] alpha_def [symmetric] p_def n_def by blast
  define f where "f = n * p / (1 - p)"
  have f: "0 \<le> f" using n p by (simp add: f_def)
  have f0: "f0 res = Some f" using p by (simp add: res(3) np_truediv_def f_def)
  have nf: "0 < n + f" using n f by simp
  have m: "market_reached res = Some (n / (n + f))"
    using nf by (simp add: res(4,5) f0 np_truediv_def)
  have "0 < n / (n + f) \<and> n / (n + f) \<le> 1" using n f nf by simp
  then show ?thesis using res(1,2) f0 f m by (simp add: n_def)
qed

lemma start_only_in_bounds:
  "\<forall>obj x0. in_bounds (opt_x (start_only obj x0 ((0.01, 100), (0.01, 100))))"
  by (simp add: start_only_def in_bounds_def Let_def)

lemma exp_6_ln_half: "exp (6 * ln (1 / 2 :: real)) = 1 / 64"
proof -
  have "exp (real 6 * ln (1 / 2 :: real)) = exp (ln (1 / 2)) ^ 6"
    by (rule exp_of_nat_mult)
  then show ?thesis by (simp add: power_one_over)
qed

lemma lone_start: "method_of_moments [5] = (1, 1)"
  by (simp add: method_of_moments_def series_var_def Let_def)

lemma lone_counts: "value_counts_sorted [5] = [(5, 1)]"
  by (simp add: value_counts_sorted_def)

lemma lone_log_p: "exp (nbd_log_p gammaln_int 1 1 5) = 1 / 64"
proof -
  have "nbd_log_p gammaln_int 1 1 5 = 6 * ln (1 / 2 :: real)"
    by (simp add: nbd_log_p_def gammaln_int_def)
  then show ?thesis by (simp only: exp_6_ln_half)
qed

lemma lone_report:
  "\<exists>res. nbd_report gammaln_int [(5, 1)] 1 mv result 1 1 = Inr res
     \<and> chi_square res = Some (961 / 32) \<and> dof res = - 1 \<and> fit_quality res = ''poor''"
  using nbd_report_fields [of gammaln_int "[(5, 1)]" 1 mv result 1 1]
  by (auto simp: lone_log_p np_truediv_def spec_fit_quality_def power2_eq_square)

text \<open>One customer with five visits, fitted by the optimiser that makes no progress.\<close>

theorem market_estimates_in_range_witness:
  "\<exists>res f m. fit_zt_nbd gammaln_int start_only [customer ''ann'' 5 450 90 3] = Inr res
      \<and> n_observed res = length [customer ''ann'' 5 450 90 3]
      \<and> f0 res = Some f \<and> 0 \<le> f
      \<and> market_reached res = Some m
      \<and> m = real (n_observed res) / (real (n_observed res) + f)
      \<and> 0 < m \<and> m \<le> 1"
  using market_estimates_in_range [of "[customer ''ann'' 5 450 90 3]" start_only gammaln_int]
    start_only_in_bounds
  by simp

lemma chi_terms_Some:
  assumes "0 < n" and "0 < q" and "q < 1"
  shows "\<forall>t \<in> set (map (\<lambda>((x, cnt), (y, predicted)).
                         Option.bind predicted (\<lambda>p. np_truediv ((real cnt - p)\<^sup>2) p))
                    (zip fc (map (\<lambda>(x, cnt). (x, map_option (\<lambda>p. p * n)
                                   (np_truediv (exp (g x)) (1 - q)))) fc))).
           \<exists>v. t = Some v \<and> 0 \<le> v"
proof
  fix t
  assume "t \<in> set (map (\<lambda>((x, cnt), (y, predicted)).
                         Option.bind predicted (\<lambda>p. np_truediv ((real cnt - p)\<^sup>2) p))
                    (zip fc (map (\<lambda>(x, cnt). (x, map_option (\<lambda>p. p * n)
                                   (np_truediv (exp (g x)) (1 - q)))) fc)))"
  then obtain x cnt y predicted where
    t: "t = Option.bind predicted (\<lambda>p. np_truediv ((real cnt - p)\<^sup>2) p)"
    and z: "((x, cnt), (y, predicted)) \<in> set (zip fc (map (\<lambda>(x, cnt). (x, map_option (\<lambda>p. p * n)
                                   (np_truediv (exp (g x)) (1 - q)))) fc))"
    by auto
  from z have "(y, predicted) \<in> set (map (\<lambda>(x, cnt). (x, map_option (\<lambda>p. p * n)
                                   (np_truediv (exp (g x)) (1 - q)))) fc)"
    by (rule set_zip_rightD)
  then obtain x' where pr: "predicted = map_option (\<lambda>p. p * n) (np_truediv (exp (g x')) (1 - q))"
    by auto
  define pv where "pv = exp (g x') / (1 - q) * n"
  have pv: "0 < pv" using assms by (simp add: pv_def)
  have "predicted = Some pv" using assms by (simp add: pr np_truediv_def pv_def)
  then have "t = Some ((real cnt - pv)\<^sup>2 / pv)" using pv by (simp add: t np_truediv_def)
  moreover have "0 \<le> (real cnt - pv)\<^sup>2 / pv" using pv by simp
  ultimately show "\<exists>v. t = Some v \<and> 0 \<le> v" by blast
qed

text \<open>
  C7, as the code has it: on a non-empty aggregate, with the fitted parameters inside the
  bounds, the degrees of freedom are the number of distinct frequency values minus 2, the
  chi-square statistic is a finite number, and the fit quality is the band of the
  statistic divided by \<open>max(df, 1)\<close>, not by the degrees of freedom themselves.
\<close>

theorem fit_quality_bands:
  assumes "cdf \<noteq> []"
    and "\<forall>obj x0. in_bounds (opt_x (minimize obj x0 ((0.01, 100), (0.01, 100))))"
  shows "\<exists>res chi. fit_zt_nbd gammaln minimize cdf = Inr res
            \<and> dof res = int (card (set (map frequency cdf))) - 2
            \<and> chi_square res = Some chi \<and> 0 \<le> chi
            \<and> fit_quality res = spec_fit_quality (chi / real_of_int (max (dof res) 1))"
proof -
  obtain obj x0 where rep:
    "fit_zt_nbd gammaln minimize cdf
       = nbd_report gammaln (value_counts_sorted (map frequency cdf)) (length cdf)
           (series_mean (map (\<lambda>c. real_of_int (frequency c)) cdf))
           (minimize obj x0 ((0.01, 100), (0.01, 100)))
           (fst (opt_x (minimize obj x0 ((0.01, 100), (0.01, 100)))))
           (snd (opt_x (minimize obj x0 ((0.01, 100), (0.01, 100)))))"
    using fit_zt_nbd_report by blast
  define r where "r = fst (opt_x (minimize obj x0 ((0.01, 100), (0.01, 100))))"
  define alpha where "alpha = snd (opt_x (minimize obj x0 ((0.01, 100), (0.01, 100))))"
  have "in_bounds (opt_x (minimize obj x0 ((0.01, 100), (0.01, 100))))"
    using assms(2) by blast
  then have pos: "0 < r" "0 < alpha" by (simp_all add: in_bounds_def r_def alpha_def)
  define p where "p = (alpha / (alpha + 1)) powr r"
  have p: "0 < p" "p < 1" using p_zero_range [OF pos] by (simp_all add: p_def)
  define n where "n = real (length cdf)"
  have n: "0 < n" using assms(1) by (simp add: n_def)
  define fc where "fc = value_counts_sorted (map frequency cdf)"
  obtain res where res:
    "fit_zt_nbd gammaln minimize cdf = Inr res"
    "dof res = int (length fc) - 2"
    "freq_actual res = fc"
    "freq_predicted res =
          map (\<lambda>(x, cnt). (x, map_option (\<lambda>p. p * n)
                 (np_truediv (exp (nbd_log_p gammaln r alpha x)) (1 - p)))) fc"
    "chi_square res =
          np_sum (map (\<lambda>((x, cnt), (y, predicted)).
                         Option.bind predicted (\<lambda>p. np_truediv ((real cnt - p)\<^sup>2) p))
                    (zip (freq_actual res) (freq_predicted res)))"
    "fit_quality res =
         (case chi_square res of None \<Rightarrow> ''poor''
          | Some c \<Rightarrow> spec_fit_quality (c / real_of_int (max (dof res) 1)))"
    using nbd_report_fields [of gammaln fc "length cdf"
        "series_mean (map (\<lambda>c. real_of_int (frequency c)) cdf)"
        "minimize obj x0 ((0.01, 100), (0.01, 100))" r alpha]
    unfolding rep r_def [symmetric] alpha_def [symmetric] p_def n_def fc_def by blast
  obtain chi where chi: "chi_square res = Some chi" "0 \<le> chi"
    unfolding res(5) res(3) res(4)
    using np_sum_Some [OF chi_terms_Some [OF n p, of fc "nbd_log_p gammaln r alpha"]] by blast
  have "dof res = int (card (set (map frequency cdf))) - 2"
    by (simp add: res(2) fc_def length_value_counts_sorted)
  then show ?thesis using res(1) res(6) chi by simp
qed

text \<open>One customer with five visits.\<close>

theorem fit_quality_bands_witness:
  "\<exists>res chi. fit_zt_nbd gammaln_int start_only [customer ''ann'' 5 450 90 3] = Inr res
      \<and> dof res = int (card (set (map frequency [customer ''ann'' 5 450 90 3]))) - 2
      \<and> chi_square res = Some chi \<and> 0 \<le> chi
      \<and> fit_quality res = spec_fit_quality (chi / real_of_int (max (dof res) 1))"
  using fit_quality_bands [of "[customer ''ann'' 5 450 90 3]" start_only gammaln_int]
    start_only_in_bounds
  by simp

text \<open>
  C7 as stated fails: a single customer with five visits gives one distinct frequency,
  so \<open>-1\<close> degrees of freedom. With the fit \<open>r = 1, alpha = 1\<close> the predicted count is
  \<open>1/32\<close> and the chi-square statistic \<open>961/32\<close>; the code divides by \<open>max(-1, 1) = 1\<close>
  and reports a poor fit, while the ratio to the degrees of freedom is negative, which
  is the band "good".
\<close>

theorem fit_quality_by_dof_counterexample:
  "map_sum id fit_quality (fit_zt_nbd gammaln_int start_only [customer ''ann'' 5 450 90 3])
     = Inr ''poor''
   \<and> map_sum id (\<lambda>res. spec_fit_quality (the (chi_square res) / real_of_int (dof res)))
        (fit_zt_nbd gammaln_int start_only [customer ''ann'' 5 450 90 3])
     = Inr ''good''"
proof -
  obtain mv result where
    "fit_zt_nbd gammaln_int start_only [customer ''ann'' 5 450 90 3]
       = nbd_report gammaln_int [(5, 1)] 1 mv result 1 1"
    by (simp add: fit_zt_nbd_def Let_def customer_def lone_start lone_counts start_only_def)
  then obtain res where
    "fit_zt_nbd gammaln_int start_only [customer ''ann'' 5 450 90 3] = Inr res"
    "chi_square res = Some (961 / 32)" "dof res = - 1" "fit_quality res = ''poor''"
    using lone_report [of mv result] by auto
  then show ?thesis by (simp add: spec_fit_quality_def)
qed

section \<open>Frame properties\<close>

lemma length_df_assign [simp]: "length (df_assign st a upd) = length st"
  by (simp add: df_assign_def)

lemma take_df_assign [simp]: "n \<le> a \<Longrightarrow> take n (df_assign st a upd) = take n st"
  by (simp add: df_assign_def)

lemma nth_df_assign_same [simp]:
  "a < length st \<Longrightarrow> df_assign st a upd ! a = upd (st ! a)"
  by (simp add: df_assign_def)

lemma df_assign_append [simp]:
  "df_assign (st @ [fr]) (length st) upd = st @ [upd fr]"
  by (simp add: df_assign_def)

lemma df_assign_append_right:
  "length st \<le> a \<Longrightarrow> df_assign (st @ xs) a upd = st @ df_assign xs (a - length st) upd"
  by (simp add: df_assign_def list_update_append nth_append)

lemma assign_segments_st_eq:
  "assign_segments_st st cdf = (st @ [assign_segments (st ! cdf)], length st)"
  by (simp add: assign_segments_st_def df_copy_def assign_segments_def)

lemma calculate_churn_probability_st_eq:
  "calculate_churn_probability_st st cdf
     = (st @ [calculate_churn_probability (st ! cdf)], length st)"
  unfolding calculate_churn_probability_st_def calculate_churn_probability_def df_copy_def Let_def
  by (cases "nan_gt (series_max (map days_since_visit (st ! cdf))) (Some 0)";
      cases "nan_gt (series_max (map (\<lambda>c. real_of_int (frequency c)) (st ! cdf))) (Some 0)")
     (simp_all add: comp_def)

lemma fit_gamma_gamma_st_store:
  "\<exists>new. fst (fit_gamma_gamma_st st cdf) = st @ new"
  unfolding fit_gamma_gamma_st_def df_select_copy_def df_copy_def df_new_def Let_def
  by (simp add: df_assign_append_right)

lemma fit_gamma_gamma_st_value:
  "cdf < length st \<Longrightarrow> snd (fit_gamma_gamma_st st cdf) = fit_gamma_gamma (st ! cdf)"
  unfolding fit_gamma_gamma_st_def fit_gamma_gamma_def df_select_copy_def df_copy_def
    df_new_def Let_def
  by (simp add: df_assign_append_right nth_append df_assign_def)

text \<open>
  C9: \<^verbatim>\<open>assign_segments\<close>, \<^verbatim>\<open>fit_gamma_gamma\<close> and \<^verbatim>\<open>calculate_churn_probability\<close> leave the
  frame they are given as it was, and the frame that \<^verbatim>\<open>assign_segments\<close> and
  \<^verbatim>\<open>calculate_churn_probability\<close> return is another object.
\<close>

theorem components_leave_input_unchanged:
  assumes "cdf < length st"
  shows "fst (assign_segments_st st cdf) ! cdf = st ! cdf
       \<and> snd (assign_segments_st st cdf) \<noteq> cdf
       \<and> fst (fit_gamma_gamma_st st cdf) ! cdf = st ! cdf
       \<and> fst (calculate_churn_probability_st st cdf) ! cdf = st ! cdf
       \<and> snd (calculate_churn_probability_st st cdf) \<noteq> cdf"
proof -
  obtain new where "fst (fit_gamma_gamma_st st cdf) = st @ new"
    using fit_gamma_gamma_st_store by blast
  then have "fst (fit_gamma_gamma_st st cdf) ! cdf = st ! cdf"
    using assms by (simp add: nth_append)
  then show ?thesis
    using assms
    by (simp add: assign_segments_st_eq calculate_churn_probability_st_eq nth_append)
qed

text \<open>A store that holds one frame with one customer.\<close>

theorem components_leave_input_unchanged_witness:
  "fst (assign_segments_st [[customer ''ann'' 5 450 90 3]] 0) ! 0 = [customer ''ann'' 5 450 90 3]
   \<and> snd (assign_segments_st [[customer ''ann'' 5 450 90 3]] 0) \<noteq> 0
   \<and> fst (fit_gamma_gamma_st [[customer ''ann'' 5 450 90 3]] 0) ! 0 = [customer ''ann'' 5 450 90 3]
   \<and> fst (calculate_churn_probability_st [[customer ''ann'' 5 450 90 3]] 0) ! 0
       = [customer ''ann'' 5 450 90 3]
   \<and> snd (calculate_churn_probability_st [[customer ''ann'' 5 450 90 3]] 0) \<noteq> 0"
  using components_leave_input_unchanged [of 0 "[[customer ''ann'' 5 450 90 3]]"]
  by simp

section \<open>The empty aggregate\<close>

text \<open>
  C1: on the empty aggregate every component returns: segmentation and the churn scorer
  return the empty table, the value model its failure result, and the frequency model
  and the churn summary a result and no exception, whatever the optimiser returns.
\<close>

theorem empty_aggregate_handled:
  "assign_segments [] = []
   \<and> (\<exists>res. fit_zt_nbd gammaln minimize [] = Inr res)
   \<and> fit_gamma_gamma [] = CLV_Failure ''Need at least 10 repeat customers for CLV analysis''
   \<and> calculate_churn_probability [] = []
   \<and> (\<exists>s. get_churn_summary [] = Inr s)"
proof -
  have a: "assign_segments [] = []" by (simp add: assign_segments_def)
  have b: "\<exists>res. fit_zt_nbd gammaln minimize [] = Inr res"
    by (simp add: fit_zt_nbd_def nbd_report_def Let_def value_counts_sorted_def
        py_truediv_def split: prod.splits)
  have c: "fit_gamma_gamma [] = CLV_Failure ''Need at least 10 repeat customers for CLV analysis''"
    by (simp add: fit_gamma_gamma_def)
  have d: "calculate_churn_probability [] = []"
    by (simp add: calculate_churn_probability_rows)
  have e: "\<exists>s. get_churn_summary [] = Inr s"
    by (simp add: get_churn_summary_def d)
  from a b c d e show ?thesis by blast
qed

end
